theory Spec2Isabelle
  imports Complex_Main
begin

section \<open>Python values\<close>

text \<open>
  The bot handles whatever \<^verbatim>\<open>resp.json()\<close> hands back, so the values of the model are
  the values of Python's \<^verbatim>\<open>json\<close> module: \<^verbatim>\<open>None\<close>, booleans, unbounded integers, floats,
  strings, lists and dicts.

  A float is a finite number, an infinity or NaN (\<^verbatim>\<open>json.loads\<close> accepts \<^verbatim>\<open>Infinity\<close>,
  \<^verbatim>\<open>-Infinity\<close> and \<^verbatim>\<open>NaN\<close>). The program never computes with floats: it only compares them
  with integer literals, and Python compares an \<^verbatim>\<open>int\<close> with a \<^verbatim>\<open>float\<close> by their exact
  values. So a finite float is placed on the real line at its exact value, and the integers
  are placed on the same line when they are compared. A decimal literal of the source
  (\<^verbatim>\<open>39_365_167.96\<close>) is written as that decimal; the double it denotes lies within one unit
  of it, far from every threshold it is compared with.

  A dict is an association list, looked up from the front. Strings are \<^typ>\<open>string\<close>, that
  is, byte strings: the addresses and field names of this program are ASCII.
\<close>

datatype number = Num real | PosInf | NegInf | NaN

datatype json =
    JNull
  | JBool bool
  | JInt int
  | JFloat number
  | JStr string
  | JList "json list"
  | JDict "(string \<times> json) list"

datatype error =
    AttributeError
  | TypeError
  | ValueError
  | RequestException
  | HTTPError
  | JSONDecodeError

text \<open>Truth value testing, as \<^verbatim>\<open>if x\<close>, \<^verbatim>\<open>not x\<close> and \<^verbatim>\<open>x or y\<close> use it.\<close>

fun truthy :: "json \<Rightarrow> bool" where
  "truthy JNull = False"
| "truthy (JBool b) = b"
| "truthy (JInt i) = (i \<noteq> 0)"
| "truthy (JFloat x) = (x \<noteq> Num 0)"
| "truthy (JStr s) = (s \<noteq> [])"
| "truthy (JList xs) = (xs \<noteq> [])"
| "truthy (JDict kvs) = (kvs \<noteq> [])"

definition py_or :: "json \<Rightarrow> json \<Rightarrow> json" where
  "py_or a b = (if truthy a then a else b)"

text \<open>
  \<^verbatim>\<open>isinstance(x, (int, float))\<close>: \<^verbatim>\<open>bool\<close> is a subclass of \<^verbatim>\<open>int\<close>, so \<^verbatim>\<open>True\<close> and \<^verbatim>\<open>False\<close>
  pass the test and count as 1 and 0. The result is the value the comparisons see.
\<close>

fun as_number :: "json \<Rightarrow> number option" where
  "as_number (JBool b) = Some (Num (if b then 1 else 0))"
| "as_number (JInt i) = Some (Num (of_int i))"
| "as_number (JFloat x) = Some x"
| "as_number JNull = None"
| "as_number (JStr s) = None"
| "as_number (JList xs) = None"
| "as_number (JDict kvs) = None"

text \<open>Python's \<^verbatim>\<open><\<close> and \<^verbatim>\<open><=\<close> on numbers: every comparison with NaN is false.\<close>

fun num_lt :: "number \<Rightarrow> number \<Rightarrow> bool" where
  "num_lt (Num a) (Num b) = (a < b)"
| "num_lt (Num a) PosInf = True"
| "num_lt (Num a) NegInf = False"
| "num_lt NegInf (Num b) = True"
| "num_lt NegInf PosInf = True"
| "num_lt NegInf NegInf = False"
| "num_lt PosInf b = False"
| "num_lt NaN b = False"
| "num_lt a NaN = False"

fun num_le :: "number \<Rightarrow> number \<Rightarrow> bool" where
  "num_le (Num a) (Num b) = (a \<le> b)"
| "num_le (Num a) PosInf = True"
| "num_le (Num a) NegInf = False"
| "num_le NegInf (Num b) = True"
| "num_le NegInf PosInf = True"
| "num_le NegInf NegInf = True"
| "num_le PosInf PosInf = True"
| "num_le PosInf (Num b) = False"
| "num_le PosInf NegInf = False"
| "num_le NaN b = False"
| "num_le a NaN = False"

definition num_gt :: "number \<Rightarrow> number \<Rightarrow> bool" where
  "num_gt a b = num_lt b a"

definition num_ge :: "number \<Rightarrow> number \<Rightarrow> bool" where
  "num_ge a b = num_le b a"

text \<open>
  \<^verbatim>\<open>d.get(key, default)\<close>. Only a dict has the method: on any other value the attribute
  lookup raises \<^verbatim>\<open>AttributeError\<close>.
\<close>

fun py_get :: "json \<Rightarrow> string \<Rightarrow> json \<Rightarrow> error + json" where
  "py_get (JDict kvs) k d = Inr (case map_of kvs k of None \<Rightarrow> d | Some v \<Rightarrow> v)"
| "py_get JNull k d = Inl AttributeError"
| "py_get (JBool b) k d = Inl AttributeError"
| "py_get (JInt i) k d = Inl AttributeError"
| "py_get (JFloat x) k d = Inl AttributeError"
| "py_get (JStr s) k d = Inl AttributeError"
| "py_get (JList xs) k d = Inl AttributeError"

text \<open>
  \<^verbatim>\<open>for t in x\<close>: a list yields its items, a dict its keys, a string its characters; the
  other values are not iterable.
\<close>

fun py_iter :: "json \<Rightarrow> error + json list" where
  "py_iter (JList xs) = Inr xs"
| "py_iter (JDict kvs) = Inr (map (\<lambda>kv. JStr (fst kv)) kvs)"
| "py_iter (JStr s) = Inr (map (\<lambda>c. JStr [c]) s)"
| "py_iter JNull = Inl TypeError"
| "py_iter (JBool b) = Inl TypeError"
| "py_iter (JInt i) = Inl TypeError"
| "py_iter (JFloat x) = Inl TypeError"

fun py_len :: "json \<Rightarrow> error + nat" where
  "py_len (JStr s) = Inr (length s)"
| "py_len (JList xs) = Inr (length xs)"
| "py_len (JDict kvs) = Inr (length kvs)"
| "py_len JNull = Inl TypeError"
| "py_len (JBool b) = Inl TypeError"
| "py_len (JInt i) = Inl TypeError"
| "py_len (JFloat x) = Inl TypeError"

section \<open>Configuration and fallback data\<close>

text \<open>
  The three settings read with \<^verbatim>\<open>os.getenv\<close> after the token: each is \<^verbatim>\<open>None\<close> when the
  variable is unset, and a string (possibly empty) otherwise.
\<close>

record config =
  DASHBOARD_API_URL :: "string option"
  ADMIN_CHAT_ID :: "string option"
  API_KEY :: "string option"

text \<open>Truth value of such a setting: unset and empty are both false.\<close>

fun is_set :: "string option \<Rightarrow> bool" where
  "is_set None = False"
| "is_set (Some s) = (s \<noteq> [])"

text \<open>The overview object: a dict with exactly these four keys on both paths that build it.\<close>

record overview =
  market :: json
  exchange_flows :: json
  stablecoin :: json
  whale_transfers :: json

definition SAMPLE_OVERVIEW :: overview where
  "SAMPLE_OVERVIEW = \<lparr>
     market = JDict [
       (''symbol'', JStr ''ETH''),
       (''price_usd'', JFloat (Num 3757.84)),
       (''price_change_24h_pct'', JFloat (Num (- 13.22))),
       (''volume_24h_usd'', JInt 104010000000),
       (''market_cap_usd'', JInt 454450000000)],
     exchange_flows = JDict [
       (''total_inflow'', JInt 530276600),
       (''total_outflow'', JInt 663261947),
       (''net_flow'', JInt (- 132985346)),
       (''sentiment'', JStr ''Strong Accumulation (Bullish)'')],
     stablecoin = JDict [
       (''stablecoin_inflow_ratio_pct'', JFloat (Num 100)),
       (''stablecoin_net_flow'', JInt (- 20000000)),
       (''mode'', JStr ''Risk-Off -> Deploying'')],
     whale_transfers = JList [
       JDict [(''token'', JStr ''USDT''), (''from'', JStr ''0xc0ba...1a09''),
              (''to'', JStr ''0x28c6...1d60''), (''amount'', JFloat (Num 1851370.43))],
       JDict [(''token'', JStr ''USDT''), (''from'', JStr ''0x17dc...403a''),
              (''to'', JStr ''0xaa8b...3efb''), (''amount'', JFloat (Num 39365167.96))]]
   \<rparr>"

section \<open>Upstream client\<close>

type_synonym headers = "(string \<times> string) list"

definition headers :: "config \<Rightarrow> headers" where
  "headers cfg =
     [(''Accept'', ''application/json'')] @
     (case API_KEY cfg of
        None \<Rightarrow> []
      | Some k \<Rightarrow> if k \<noteq> [] then [(''Authorization'', ''Bearer '' @ k)] else [])"

text \<open>
  The \<^verbatim>\<open>requests\<close> library is outside the repository. What the program sees of it is: the call
  \<^verbatim>\<open>requests.get\<close> raises or returns a response, which has a status code;
  \<^verbatim>\<open>raise_for_status()\<close> raises for some status codes; \<^verbatim>\<open>json()\<close> raises or returns the parsed
  body (\<open>None\<close> here when it raises).
\<close>

record response =
  status_code :: int
  body :: "json option"

text \<open>
  \<^verbatim>\<open>Response.raise_for_status\<close> of \<^verbatim>\<open>requests\<close> (\<^verbatim>\<open>models.py\<close>) builds an error message when
  \<^verbatim>\<open>400 <= self.status_code < 500\<close> (client error) or \<^verbatim>\<open>500 <= self.status_code < 600\<close> (server
  error), and raises \<^verbatim>\<open>HTTPError\<close> exactly when it built one. A reply with any other status,
  a 2xx one as well as a 1xx or a 3xx one that the library hands back (a 300 or a 304, a
  redirect without a \<^verbatim>\<open>Location\<close> header), passes.
\<close>

definition raise_for_status :: "response \<Rightarrow> bool" where
  "raise_for_status resp =
     ((400 \<le> status_code resp \<and> status_code resp < 500) \<or>
      (500 \<le> status_code resp \<and> status_code resp < 600))"

definition is_2xx :: "response \<Rightarrow> bool" where
  "is_2xx resp = (200 \<le> status_code resp \<and> status_code resp < 300)"

type_synonym http = "string \<Rightarrow> headers \<Rightarrow> error + response"

text \<open>What a run does to the outside world, in order.\<close>

datatype addr_text = Whole json | Abbrev json json

datatype alert =
    StrongAccumulation json
  | StrongDistribution json
  | WhaleTransfer json json addr_text addr_text

datatype event =
    HttpGet string headers
  | SendMessage int "alert list"

definition rstrip_slash :: "string \<Rightarrow> string" where
  "rstrip_slash s = rev (dropWhile (\<lambda>c. c = CHR ''/'') (rev s))"

text \<open>The body of the \<^verbatim>\<open>try\<close> block of \<^verbatim>\<open>try_get\<close>: three calls, each of which may raise.\<close>

definition get_json :: "http \<Rightarrow> string \<Rightarrow> headers \<Rightarrow> error + json" where
  "get_json h url hs =
     (case h url hs of
        Inl e \<Rightarrow> Inl e
      | Inr resp \<Rightarrow>
          if raise_for_status resp then Inl HTTPError
          else (case body resp of None \<Rightarrow> Inl JSONDecodeError | Some j \<Rightarrow> Inr j))"

text \<open>
  \<^verbatim>\<open>try_get\<close> returns the value and the requests it made. Python's \<^verbatim>\<open>None\<close> is \<^const>\<open>JNull\<close>,
  so a body that is the JSON text \<^verbatim>\<open>null\<close> and a failed call give the same result. The
  \<^verbatim>\<open>logger.debug\<close> of the handler is below the configured level and writes nothing.
\<close>

definition try_get :: "config \<Rightarrow> http \<Rightarrow> string \<Rightarrow> json \<times> event list" where
  "try_get cfg h path =
     (case DASHBOARD_API_URL cfg of
        None \<Rightarrow> (JNull, [])
      | Some base \<Rightarrow>
          if base = [] then (JNull, [])
          else
            (let url = rstrip_slash base @ path in
             (case get_json h url (headers cfg) of
                Inl e \<Rightarrow> JNull
              | Inr j \<Rightarrow> j,
              [HttpGet url (headers cfg)])))"

section \<open>Snapshot aggregator\<close>

definition fetch_dashboard_overview :: "config \<Rightarrow> http \<Rightarrow> overview \<times> event list" where
  "fetch_dashboard_overview cfg h =
     (let (market_v, e1) = try_get cfg h ''/api/market'';
          (flows, e2) = try_get cfg h ''/api/exchange_flows'';
          (stable, e3) = try_get cfg h ''/api/stablecoin'';
          (whales, e4) = try_get cfg h ''/api/whale_transfers''
      in
        (if truthy market_v \<and> truthy flows \<and> truthy stable \<and> whales \<noteq> JNull then
           \<lparr>market = market_v, exchange_flows = flows, stablecoin = stable,
            whale_transfers = whales\<rparr>
         else
           \<lparr>market = py_or market_v (market SAMPLE_OVERVIEW),
            exchange_flows = py_or flows (exchange_flows SAMPLE_OVERVIEW),
            stablecoin = py_or stable (stablecoin SAMPLE_OVERVIEW),
            whale_transfers = py_or whales (whale_transfers SAMPLE_OVERVIEW)\<rparr>,
         e1 @ e2 @ e3 @ e4))"

section \<open>Text helpers\<close>

text \<open>
  The text of a message is not modelled: a line or an alert is a constructor, one for each
  string literal of the source, that carries the values the f-string formats (the argument
  of \<^verbatim>\<open>fmt_usd\<close>, which never raises, or of \<^verbatim>\<open>str\<close>). The literals of the source start
  with different words and symbols, so different constructors are different texts.

  \<^verbatim>\<open>short_addr\<close> returns its argument, the empty string, or the f-string made of the first
  six and the last four items: \<^const>\<open>Whole\<close> is the first two, \<^const>\<open>Abbrev\<close> carries the two
  slices. \<^verbatim>\<open>len\<close> raises on a number or a boolean, and a dict cannot be sliced.
\<close>

definition short_addr :: "json \<Rightarrow> error + addr_text" where
  "short_addr addr =
     (if \<not> truthy addr then Inr (Whole (py_or addr (JStr [])))
      else
        (case py_len addr of
           Inl e \<Rightarrow> Inl e
         | Inr n \<Rightarrow>
             if n < 10 then Inr (Whole (py_or addr (JStr [])))
             else
               (case addr of
                  JStr s \<Rightarrow> Inr (Abbrev (JStr (take 6 s)) (JStr (drop (n - 4) s)))
                | JList xs \<Rightarrow> Inr (Abbrev (JList (take 6 xs)) (JList (drop (n - 4) xs)))
                | _ \<Rightarrow> Inl TypeError)))"

section \<open>Sentiment engine\<close>

datatype line =
    Header json
  | FlowsAccumulation
  | FlowsDistribution
  | FlowsNeutral
  | StablecoinRiskOff
  | StablecoinAccumulation
  | StablecoinMixed
  | CombinedAccumulation
  | CombinedDivergence
  | CombinedBearish
  | AsOf string

text \<open>The three blocks of \<^verbatim>\<open>insight_cmd\<close> that append at most one line each.\<close>

definition flow_lines :: "json \<Rightarrow> line list" where
  "flow_lines netf =
     (case as_number netf of
        None \<Rightarrow> []
      | Some n \<Rightarrow>
          if num_lt n (Num 0) then [FlowsAccumulation]
          else if num_gt n (Num 0) then [FlowsDistribution]
          else [FlowsNeutral])"

definition stablecoin_lines :: "json \<Rightarrow> line list" where
  "stablecoin_lines ratio =
     (case as_number ratio of
        None \<Rightarrow> []
      | Some r \<Rightarrow>
          if num_ge r (Num 70) then [StablecoinRiskOff]
          else if num_le r (Num 30) then [StablecoinAccumulation]
          else [StablecoinMixed])"

definition combined_lines :: "json \<Rightarrow> json \<Rightarrow> line list" where
  "combined_lines netf stable_net =
     (case (as_number netf, as_number stable_net) of
        (Some n, Some s) \<Rightarrow>
          if num_lt n (Num 0) \<and> num_lt s (Num 0) then [CombinedAccumulation]
          else if num_lt n (Num 0) \<and> num_lt (Num 0) s then [CombinedDivergence]
          else if num_gt n (Num 0) \<and> num_gt s (Num 0) then [CombinedBearish]
          else []
      | _ \<Rightarrow> [])"

text \<open>
  The list \<^verbatim>\<open>lines\<close> that \<^verbatim>\<open>insight_cmd\<close> builds from the overview. The last line formats
  \<^verbatim>\<open>datetime.utcnow()\<close>: the clock reading, already formatted, is the argument \<open>now\<close>.
\<close>

definition insight_lines :: "overview \<Rightarrow> string \<Rightarrow> error + line list" where
  "insight_lines ov now =
     (case py_get (exchange_flows ov) ''net_flow'' JNull of
        Inl e \<Rightarrow> Inl e
      | Inr netf \<Rightarrow>
     (case py_get (stablecoin ov) ''stablecoin_inflow_ratio_pct'' JNull of
        Inl e \<Rightarrow> Inl e
      | Inr ratio \<Rightarrow>
     (case py_get (stablecoin ov) ''stablecoin_net_flow'' JNull of
        Inl e \<Rightarrow> Inl e
      | Inr stable_net \<Rightarrow>
     (case py_get (market ov) ''price_usd'' (JStr ''N/A'') of
        Inl e \<Rightarrow> Inl e
      | Inr price \<Rightarrow>
          Inr ([Header price] @ flow_lines netf @ stablecoin_lines ratio
               @ combined_lines netf stable_net @ [AsOf now])))))"

definition insight_cmd ::
  "config \<Rightarrow> http \<Rightarrow> string \<Rightarrow> (error + line list) \<times> event list" where
  "insight_cmd cfg h now =
     (let (ov, evs) = fetch_dashboard_overview cfg h in (insight_lines ov now, evs))"

section \<open>Alert evaluator\<close>

definition ACCUM_THRESHOLD :: number where
  "ACCUM_THRESHOLD = Num (- 50000000)"

definition DIST_THRESHOLD :: number where
  "DIST_THRESHOLD = Num 50000000"

definition BIG_TX_THRESHOLD :: number where
  "BIG_TX_THRESHOLD = Num 10000000"

text \<open>The two flow checks: two separate \<^verbatim>\<open>if\<close> statements, not an \<^verbatim>\<open>elif\<close> chain.\<close>

definition flow_alerts :: "json \<Rightarrow> alert list" where
  "flow_alerts netf =
     (case as_number netf of
        None \<Rightarrow> []
      | Some n \<Rightarrow>
          (if num_le n ACCUM_THRESHOLD then [StrongAccumulation netf] else []) @
          (if num_ge n DIST_THRESHOLD then [StrongDistribution netf] else []))"

text \<open>
  The body of the loop over the transfers: \<open>None\<close> when nothing is appended. The f-string
  evaluates its fields from left to right.
\<close>

definition whale_alert :: "json \<Rightarrow> error + alert option" where
  "whale_alert t =
     (case py_get t ''amount'' (JInt 0) of
        Inl e \<Rightarrow> Inl e
      | Inr amt \<Rightarrow>
          (case as_number amt of
             None \<Rightarrow> Inr None
           | Some a \<Rightarrow>
               if num_ge a BIG_TX_THRESHOLD then
                 (case py_get t ''token'' JNull of
                    Inl e \<Rightarrow> Inl e
                  | Inr token \<Rightarrow>
                 (case py_get t ''from'' JNull of
                    Inl e \<Rightarrow> Inl e
                  | Inr src \<Rightarrow>
                 (case short_addr src of
                    Inl e \<Rightarrow> Inl e
                  | Inr src_text \<Rightarrow>
                 (case py_get t ''to'' JNull of
                    Inl e \<Rightarrow> Inl e
                  | Inr dst \<Rightarrow>
                 (case short_addr dst of
                    Inl e \<Rightarrow> Inl e
                  | Inr dst_text \<Rightarrow>
                      Inr (Some (WhaleTransfer amt token src_text dst_text)))))))
               else Inr None))"

fun whale_loop :: "json list \<Rightarrow> alert list \<Rightarrow> error + alert list" where
  "whale_loop [] alerts = Inr alerts"
| "whale_loop (t # ts) alerts =
     (case whale_alert t of
        Inl e \<Rightarrow> Inl e
      | Inr None \<Rightarrow> whale_loop ts alerts
      | Inr (Some a) \<Rightarrow> whale_loop ts (alerts @ [a]))"

text \<open>
  The list \<^verbatim>\<open>alerts\<close> that \<^verbatim>\<open>check_and_send_alert\<close> builds from the overview, from the read
  of \<^verbatim>\<open>net_flow\<close> to the end of the loop.
\<close>

definition evaluate_alerts :: "overview \<Rightarrow> error + alert list" where
  "evaluate_alerts ov =
     (case py_get (exchange_flows ov) ''net_flow'' (JInt 0) of
        Inl e \<Rightarrow> Inl e
      | Inr netf \<Rightarrow>
          (case py_iter (whale_transfers ov) of
             Inl e \<Rightarrow> Inl e
           | Inr ts \<Rightarrow> whale_loop ts (flow_alerts netf)))"

text \<open>
  The scheduled job. \<^verbatim>\<open>int(ADMIN_CHAT_ID)\<close> is Python's conversion, a parameter here
  (\<open>None\<close> when it raises \<^verbatim>\<open>ValueError\<close>); it is evaluated only when there is something to
  send. The result is the outcome of the job and the events of the run.
\<close>

definition check_and_send_alert ::
  "config \<Rightarrow> http \<Rightarrow> (string \<Rightarrow> int option) \<Rightarrow> (error + unit) \<times> event list" where
  "check_and_send_alert cfg h py_int =
     (if \<not> is_set (ADMIN_CHAT_ID cfg) then (Inr (), [])
      else
        (let (ov, evs) = fetch_dashboard_overview cfg h in
         (case evaluate_alerts ov of
            Inl e \<Rightarrow> (Inl e, evs)
          | Inr alerts \<Rightarrow>
              if alerts \<noteq> [] then
                (case py_int (the (ADMIN_CHAT_ID cfg)) of
                   None \<Rightarrow> (Inl ValueError, evs)
                 | Some chat_id \<Rightarrow> (Inr (), evs @ [SendMessage chat_id alerts]))
              else (Inr (), evs))))"

section \<open>Vocabulary of the properties\<close>

text \<open>
  A section or a transfer of the data model is an object; a field of it is numeric when it
  is present and passes the \<^verbatim>\<open>isinstance\<close> test.
\<close>

fun is_dict :: "json \<Rightarrow> bool" where
  "is_dict (JDict kvs) = True"
| "is_dict JNull = False"
| "is_dict (JBool b) = False"
| "is_dict (JInt i) = False"
| "is_dict (JFloat x) = False"
| "is_dict (JStr s) = False"
| "is_dict (JList xs) = False"

fun field :: "json \<Rightarrow> string \<Rightarrow> json option" where
  "field (JDict kvs) k = map_of kvs k"
| "field JNull k = None"
| "field (JBool b) k = None"
| "field (JInt i) k = None"
| "field (JFloat x) k = None"
| "field (JStr s) k = None"
| "field (JList xs) k = None"

definition numeric_field :: "json \<Rightarrow> string \<Rightarrow> number option" where
  "numeric_field d k = (case field d k of None \<Rightarrow> None | Some v \<Rightarrow> as_number v)"

text \<open>An address of a transfer is a string, when it is there at all.\<close>

fun is_address :: "json option \<Rightarrow> bool" where
  "is_address None = True"
| "is_address (Some (JStr s)) = True"
| "is_address (Some JNull) = True"
| "is_address (Some (JBool b)) = False"
| "is_address (Some (JInt i)) = False"
| "is_address (Some (JFloat x)) = False"
| "is_address (Some (JList xs)) = False"
| "is_address (Some (JDict kvs)) = False"

definition is_transfer :: "json \<Rightarrow> bool" where
  "is_transfer t = (is_dict t \<and> is_address (field t ''from'') \<and> is_address (field t ''to''))"

text \<open>The amount the alert loop reads from a transfer: 0 when the key is missing.\<close>

definition transfer_amount :: "json \<Rightarrow> number option" where
  "transfer_amount t =
     (case field t ''amount'' of None \<Rightarrow> Some (Num 0) | Some v \<Rightarrow> as_number v)"

definition big_transfer :: "json \<Rightarrow> bool" where
  "big_transfer t =
     (case transfer_amount t of None \<Rightarrow> False | Some a \<Rightarrow> num_ge a (Num 10000000))"

fun is_flow_line :: "line \<Rightarrow> bool" where
  "is_flow_line FlowsAccumulation = True"
| "is_flow_line FlowsDistribution = True"
| "is_flow_line FlowsNeutral = True"
| "is_flow_line l = False"

fun is_stablecoin_line :: "line \<Rightarrow> bool" where
  "is_stablecoin_line StablecoinRiskOff = True"
| "is_stablecoin_line StablecoinAccumulation = True"
| "is_stablecoin_line StablecoinMixed = True"
| "is_stablecoin_line l = False"

fun is_combined_line :: "line \<Rightarrow> bool" where
  "is_combined_line CombinedAccumulation = True"
| "is_combined_line CombinedDivergence = True"
| "is_combined_line CombinedBearish = True"
| "is_combined_line l = False"

fun is_accumulation_alert :: "alert \<Rightarrow> bool" where
  "is_accumulation_alert (StrongAccumulation v) = True"
| "is_accumulation_alert a = False"

fun is_distribution_alert :: "alert \<Rightarrow> bool" where
  "is_distribution_alert (StrongDistribution v) = True"
| "is_distribution_alert a = False"

fun is_whale_alert :: "alert \<Rightarrow> bool" where
  "is_whale_alert (WhaleTransfer amt token src dst) = True"
| "is_whale_alert a = False"

subsection \<open>Concrete upstreams\<close>

text \<open>
  An upstream that answers the listed URLs with status 200 and the listed JSON body, and
  is unreachable at every other URL.
\<close>

definition serve :: "(string \<times> json) list \<Rightarrow> http" where
  "serve table url hs =
     (case map_of table url of
        None \<Rightarrow> Inl RequestException
      | Some j \<Rightarrow> Inr \<lparr>status_code = 200, body = Some j\<rparr>)"

definition example_cfg :: config where
  "example_cfg = \<lparr>DASHBOARD_API_URL = Some ''http://api/'', ADMIN_CHAT_ID = Some ''42'',
     API_KEY = None\<rparr>"

definition offline_cfg :: config where
  "offline_cfg = \<lparr>DASHBOARD_API_URL = None, ADMIN_CHAT_ID = None, API_KEY = None\<rparr>"

definition live_market :: json where
  "live_market = JDict [(''symbol'', JStr ''ETH''), (''price_usd'', JInt 2000)]"

definition live_flows :: json where
  "live_flows = JDict [(''net_flow'', JInt (- 50000000))]"

definition live_stablecoin :: json where
  "live_stablecoin = JDict [(''stablecoin_inflow_ratio_pct'', JInt 70),
     (''stablecoin_net_flow'', JInt 10000000)]"

definition transfer_at_threshold :: json where
  "transfer_at_threshold =
     JDict [(''token'', JStr ''USDC''), (''from'', JStr ''0xaaaaaaaaaaaa''),
            (''to'', JStr ''0xbb''), (''amount'', JInt 10000000)]"

definition transfer_below_threshold :: json where
  "transfer_below_threshold =
     JDict [(''token'', JStr ''USDC''), (''from'', JStr ''0xcc''),
            (''to'', JStr ''0xdd''), (''amount'', JInt 9999999)]"

definition live_whales :: json where
  "live_whales = JList [transfer_at_threshold, transfer_below_threshold]"

definition example_overview :: overview where
  "example_overview = \<lparr>market = live_market, exchange_flows = live_flows,
     stablecoin = live_stablecoin, whale_transfers = live_whales\<rparr>"

definition near_miss_overview :: overview where
  "near_miss_overview = \<lparr>market = live_market,
     exchange_flows = JDict [(''net_flow'', JInt (- 49999999))],
     stablecoin = live_stablecoin, whale_transfers = live_whales\<rparr>"

definition sparse_overview :: overview where
  "sparse_overview = \<lparr>market = JDict [], exchange_flows = JDict [(''sentiment'', JStr ''?'')],
     stablecoin = JDict [(''stablecoin_inflow_ratio_pct'', JStr ''n/a'')],
     whale_transfers = JList []\<rparr>"

definition overview_with_ratio :: "json \<Rightarrow> overview" where
  "overview_with_ratio r = \<lparr>market = live_market, exchange_flows = live_flows,
     stablecoin = JDict [(''stablecoin_inflow_ratio_pct'', r)],
     whale_transfers = JList []\<rparr>"

definition overview_with_flows :: "int \<Rightarrow> int \<Rightarrow> overview" where
  "overview_with_flows n s = \<lparr>market = live_market,
     exchange_flows = JDict [(''net_flow'', JInt n)],
     stablecoin = JDict [(''stablecoin_net_flow'', JInt s)],
     whale_transfers = JList []\<rparr>"

text \<open>Upstreams in which one call fails, or returns nothing, while the others answer.\<close>

definition market_down_no_whales :: http where
  "market_down_no_whales = serve [
     (''http://api/api/exchange_flows'', live_flows),
     (''http://api/api/stablecoin'', live_stablecoin),
     (''http://api/api/whale_transfers'', JList [])]"

definition flows_down_empty_market :: http where
  "flows_down_empty_market = serve [
     (''http://api/api/market'', JDict []),
     (''http://api/api/stablecoin'', live_stablecoin),
     (''http://api/api/whale_transfers'', live_whales)]"

definition flows_down :: http where
  "flows_down = serve [
     (''http://api/api/market'', live_market),
     (''http://api/api/stablecoin'', live_stablecoin),
     (''http://api/api/whale_transfers'', live_whales)]"

definition all_up :: http where
  "all_up = serve [
     (''http://api/api/market'', live_market),
     (''http://api/api/exchange_flows'', live_flows),
     (''http://api/api/stablecoin'', live_stablecoin),
     (''http://api/api/whale_transfers'', live_whales)]"

text \<open>
  Upstreams that answer every URL alike: with status 503 and a JSON body, with status 200
  and a body that is not JSON, and with status 300 (and no \<^verbatim>\<open>Location\<close> header, so that
  \<^verbatim>\<open>requests\<close> returns the reply as it is) and a JSON body.
\<close>

definition rejecting :: http where
  "rejecting url hs = Inr \<lparr>status_code = 503, body = Some live_market\<rparr>"

definition garbled :: http where
  "garbled url hs = Inr \<lparr>status_code = 200, body = None\<rparr>"

definition multiple_choices :: http where
  "multiple_choices url hs = Inr \<lparr>status_code = 300, body = Some live_market\<rparr>"

definition no_admin_cfg :: config where
  "no_admin_cfg = \<lparr>DASHBOARD_API_URL = Some ''http://api/'', ADMIN_CHAT_ID = None,
     API_KEY = Some ''k''\<rparr>"

section \<open>Properties of the upstream client\<close>

text \<open>
  Claim C8, as stated, fails: a reply whose status is not 2xx does not always give \<^verbatim>\<open>None\<close>.
  \<^verbatim>\<open>raise_for_status\<close> lets a 300 reply pass, and \<^verbatim>\<open>try_get\<close> returns its parsed body.
\<close>

theorem try_get_returns_body_of_300:
  "multiple_choices ''http://api/api/market'' (headers example_cfg)
     = Inr \<lparr>status_code = 300, body = Some live_market\<rparr> \<and>
   \<not> is_2xx \<lparr>status_code = 300, body = Some live_market\<rparr> \<and>
   fst (try_get example_cfg multiple_choices ''/api/market'') = live_market \<and>
   fst (try_get example_cfg multiple_choices ''/api/market'') \<noteq> JNull"
  by (simp add: multiple_choices_def is_2xx_def try_get_def example_cfg_def rstrip_slash_def
      get_json_def raise_for_status_def live_market_def)

text \<open>
  Claim C8, amended. \<^verbatim>\<open>try_get\<close> has no error among its results: the handler turns every
  exception of the \<^verbatim>\<open>try\<close> block into \<^verbatim>\<open>None\<close>. It returns \<^verbatim>\<open>None\<close> without a request when the
  base URL is unset or empty, and \<^verbatim>\<open>None\<close> when the request raises, when the status of the
  reply is 4xx or 5xx, or when the body is not JSON; otherwise (any other status, 2xx among
  them, and a JSON body) it returns the parsed body.
\<close>

theorem try_get_json_or_none:
  "(\<not> is_set (DASHBOARD_API_URL cfg) \<longrightarrow> try_get cfg h path = (JNull, [])) \<and>
   (DASHBOARD_API_URL cfg = Some base \<and> base \<noteq> [] \<longrightarrow>
      (h (rstrip_slash base @ path) (headers cfg) = Inl e \<longrightarrow> fst (try_get cfg h path) = JNull) \<and>
      (h (rstrip_slash base @ path) (headers cfg) = Inr resp \<and>
         400 \<le> status_code resp \<and> status_code resp < 600
         \<longrightarrow> fst (try_get cfg h path) = JNull) \<and>
      (h (rstrip_slash base @ path) (headers cfg) = Inr resp \<and> body resp = None
         \<longrightarrow> fst (try_get cfg h path) = JNull) \<and>
      (h (rstrip_slash base @ path) (headers cfg) = Inr resp \<and>
         \<not> (400 \<le> status_code resp \<and> status_code resp < 600) \<and> body resp = Some j
         \<longrightarrow> fst (try_get cfg h path) = j) \<and>
      (h (rstrip_slash base @ path) (headers cfg) = Inr resp \<and> is_2xx resp \<and> body resp = Some j
         \<longrightarrow> fst (try_get cfg h path) = j))"
  by (cases "DASHBOARD_API_URL cfg")
     (auto simp: try_get_def get_json_def raise_for_status_def is_2xx_def Let_def)

theorem try_get_json_or_none_witness:
  "try_get offline_cfg all_up ''/api/market'' = (JNull, []) \<and>
   fst (try_get example_cfg (serve []) ''/api/market'') = JNull \<and>
   fst (try_get example_cfg rejecting ''/api/market'') = JNull \<and>
   fst (try_get example_cfg garbled ''/api/market'') = JNull \<and>
   fst (try_get example_cfg multiple_choices ''/api/market'') = live_market \<and>
   fst (try_get example_cfg all_up ''/api/market'') = live_market"
proof -
  have url: "rstrip_slash ''http://api/'' @ ''/api/market'' = ''http://api/api/market''"
    by (simp add: rstrip_slash_def)
  have base: "DASHBOARD_API_URL example_cfg = Some ''http://api/'' \<and> ''http://api/'' \<noteq> []"
    by (simp add: example_cfg_def)
  have off: "\<not> is_set (DASHBOARD_API_URL offline_cfg)"
    by (simp add: offline_cfg_def)
  have a: "serve [] (rstrip_slash ''http://api/'' @ ''/api/market'') (headers example_cfg)
      = Inl RequestException"
    by (simp add: serve_def)
  have b: "rejecting (rstrip_slash ''http://api/'' @ ''/api/market'') (headers example_cfg)
      = Inr \<lparr>status_code = 503, body = Some live_market\<rparr>"
    by (simp add: rejecting_def)
  have c: "garbled (rstrip_slash ''http://api/'' @ ''/api/market'') (headers example_cfg)
      = Inr \<lparr>status_code = 200, body = None\<rparr>"
    by (simp add: garbled_def)
  have d: "all_up (rstrip_slash ''http://api/'' @ ''/api/market'') (headers example_cfg)
      = Inr \<lparr>status_code = 200, body = Some live_market\<rparr>"
    by (simp add: url all_up_def serve_def)
  have m: "multiple_choices (rstrip_slash ''http://api/'' @ ''/api/market'') (headers example_cfg)
      = Inr \<lparr>status_code = 300, body = Some live_market\<rparr>"
    by (simp add: multiple_choices_def)
  show ?thesis
    using off base a b c d m
      try_get_json_or_none [where cfg = offline_cfg and h = all_up and path = "''/api/market''"]
      try_get_json_or_none [where cfg = example_cfg and base = "''http://api/''"
        and h = "serve []" and path = "''/api/market''" and e = RequestException]
      try_get_json_or_none [where cfg = example_cfg and base = "''http://api/''"
        and h = rejecting and path = "''/api/market''"
        and resp = "\<lparr>status_code = 503, body = Some live_market\<rparr>"]
      try_get_json_or_none [where cfg = example_cfg and base = "''http://api/''"
        and h = garbled and path = "''/api/market''"
        and resp = "\<lparr>status_code = 200, body = None\<rparr>"]
      try_get_json_or_none [where cfg = example_cfg and base = "''http://api/''"
        and h = multiple_choices and path = "''/api/market''"
        and resp = "\<lparr>status_code = 300, body = Some live_market\<rparr>" and j = live_market]
      try_get_json_or_none [where cfg = example_cfg and base = "''http://api/''"
        and h = all_up and path = "''/api/market''"
        and resp = "\<lparr>status_code = 200, body = Some live_market\<rparr>" and j = live_market]
    by (simp add: is_2xx_def)
qed

section \<open>Properties of the snapshot aggregator\<close>

text \<open>
  The overview in terms of the four values the calls return: the all-live branch needs the
  first three to be truthy and the fourth to be anything but \<^verbatim>\<open>None\<close>; the other branch
  takes each section by truthiness.
\<close>

lemma fetch_sections:
  "fst (fetch_dashboard_overview cfg h) =
     (let m = fst (try_get cfg h ''/api/market'');
          f = fst (try_get cfg h ''/api/exchange_flows'');
          s = fst (try_get cfg h ''/api/stablecoin'');
          w = fst (try_get cfg h ''/api/whale_transfers'')
      in if truthy m \<and> truthy f \<and> truthy s \<and> w \<noteq> JNull then
           \<lparr>market = m, exchange_flows = f, stablecoin = s, whale_transfers = w\<rparr>
         else
           \<lparr>market = py_or m (market SAMPLE_OVERVIEW),
            exchange_flows = py_or f (exchange_flows SAMPLE_OVERVIEW),
            stablecoin = py_or s (stablecoin SAMPLE_OVERVIEW),
            whale_transfers = py_or w (whale_transfers SAMPLE_OVERVIEW)\<rparr>)"
  by (simp add: fetch_dashboard_overview_def Let_def split: prod.splits)

lemma try_get_served:
  "fst (try_get example_cfg (serve table) path) =
     (case map_of table (''http://api'' @ path) of None \<Rightarrow> JNull | Some j \<Rightarrow> j)"
  by (simp add: try_get_def example_cfg_def rstrip_slash_def get_json_def serve_def
      raise_for_status_def Let_def split: option.splits)

text \<open>The alerts of the fallback data.\<close>

lemma evaluate_sample:
  "evaluate_alerts SAMPLE_OVERVIEW = Inr [StrongAccumulation (JInt (- 132985346)),
     WhaleTransfer (JFloat (Num 39365167.96)) (JStr ''USDT'')
       (Abbrev (JStr ''0x17dc'') (JStr ''403a'')) (Abbrev (JStr ''0xaa8b'') (JStr ''3efb''))]"
  by (simp add: evaluate_alerts_def SAMPLE_OVERVIEW_def flow_alerts_def whale_alert_def
      short_addr_def py_or_def ACCUM_THRESHOLD_def DIST_THRESHOLD_def BIG_TX_THRESHOLD_def
      num_ge_def)

text \<open>
  Claim C9. When all four calls fail, the overview is \<^verbatim>\<open>SAMPLE_OVERVIEW\<close> in all four
  sections, and its alerts are exactly two: the accumulation alert for the net flow
  -132,985,346 and the transfer alert for 39,365,167.96; the transfer of 1,851,370.43 has
  no alert.
\<close>

theorem all_calls_fail_sample_alerts:
  assumes "fst (try_get cfg h ''/api/market'') = JNull"
    and "fst (try_get cfg h ''/api/exchange_flows'') = JNull"
    and "fst (try_get cfg h ''/api/stablecoin'') = JNull"
    and "fst (try_get cfg h ''/api/whale_transfers'') = JNull"
  shows "fst (fetch_dashboard_overview cfg h) = SAMPLE_OVERVIEW \<and>
         evaluate_alerts (fst (fetch_dashboard_overview cfg h)) =
           Inr [StrongAccumulation (JInt (- 132985346)),
                WhaleTransfer (JFloat (Num 39365167.96)) (JStr ''USDT'')
                  (Abbrev (JStr ''0x17dc'') (JStr ''403a''))
                  (Abbrev (JStr ''0xaa8b'') (JStr ''3efb''))]"
proof -
  have "fst (fetch_dashboard_overview cfg h) = SAMPLE_OVERVIEW"
    using assms by (simp add: fetch_sections py_or_def)
  then show ?thesis
    by (simp add: evaluate_sample)
qed

theorem all_calls_fail_sample_alerts_witness:
  "fst (try_get example_cfg (serve []) ''/api/market'') = JNull \<and>
   fst (try_get example_cfg (serve []) ''/api/exchange_flows'') = JNull \<and>
   fst (try_get example_cfg (serve []) ''/api/stablecoin'') = JNull \<and>
   fst (try_get example_cfg (serve []) ''/api/whale_transfers'') = JNull \<and>
   fst (fetch_dashboard_overview example_cfg (serve [])) = SAMPLE_OVERVIEW \<and>
   evaluate_alerts (fst (fetch_dashboard_overview example_cfg (serve []))) =
     Inr [StrongAccumulation (JInt (- 132985346)),
          WhaleTransfer (JFloat (Num 39365167.96)) (JStr ''USDT'')
            (Abbrev (JStr ''0x17dc'') (JStr ''403a''))
            (Abbrev (JStr ''0xaa8b'') (JStr ''3efb''))]"
proof -
  have down: "fst (try_get example_cfg (serve []) path) = JNull" for path
    by (simp add: try_get_served)
  from all_calls_fail_sample_alerts [OF down down down down] down show ?thesis
    by blast
qed

text \<open>
  Claim C1 says that an empty list returned by the whale-transfers call stays in the
  overview whatever the other calls do. The all-live branch keeps it (its test is
  \<^verbatim>\<open>whales is not None\<close>), the other branch does not (\<^verbatim>\<open>whales or SAMPLE_OVERVIEW[...]\<close>
  replaces every falsy value): with the market call failing and the whale-transfers call
  returning the empty list, the section is the fallback list of two transfers.
\<close>

theorem empty_whales_replaced_when_market_down:
  "fst (try_get example_cfg market_down_no_whales ''/api/market'') = JNull \<and>
   fst (try_get example_cfg market_down_no_whales ''/api/whale_transfers'') = JList [] \<and>
   whale_transfers (fst (fetch_dashboard_overview example_cfg market_down_no_whales))
     = whale_transfers SAMPLE_OVERVIEW \<and>
   whale_transfers (fst (fetch_dashboard_overview example_cfg market_down_no_whales))
     \<noteq> JList []"
  by (simp add: fetch_sections market_down_no_whales_def try_get_served py_or_def
      SAMPLE_OVERVIEW_def live_flows_def live_stablecoin_def)

text \<open>
  Claim C2, as stated, fails: when exactly one call fails (exchange flows) and another
  (market) succeeds with an empty object, the market section is the fallback section and
  not the value the call returned.
\<close>

theorem empty_market_replaced_when_flows_down:
  "fst (try_get example_cfg flows_down_empty_market ''/api/exchange_flows'') = JNull \<and>
   fst (try_get example_cfg flows_down_empty_market ''/api/market'') = JDict [] \<and>
   fst (try_get example_cfg flows_down_empty_market ''/api/stablecoin'') = live_stablecoin \<and>
   fst (try_get example_cfg flows_down_empty_market ''/api/whale_transfers'') = live_whales \<and>
   market (fst (fetch_dashboard_overview example_cfg flows_down_empty_market))
     \<noteq> fst (try_get example_cfg flows_down_empty_market ''/api/market'')"
  by (simp add: fetch_sections flows_down_empty_market_def try_get_served py_or_def
      SAMPLE_OVERVIEW_def)

text \<open>
  Claim C2, amended. A section whose call returns non-empty (truthy) data is that data,
  exactly as returned; a section whose call fails is the fallback section. So when exactly
  one call fails and the other three return non-empty data, exactly that section is the
  fallback section and the other three are the live values.
\<close>

theorem sections_live_or_fallback:
  fixes cfg h
  defines "m \<equiv> fst (try_get cfg h ''/api/market'')"
    and "f \<equiv> fst (try_get cfg h ''/api/exchange_flows'')"
    and "s \<equiv> fst (try_get cfg h ''/api/stablecoin'')"
    and "w \<equiv> fst (try_get cfg h ''/api/whale_transfers'')"
    and "ov \<equiv> fst (fetch_dashboard_overview cfg h)"
  shows "(truthy m \<longrightarrow> market ov = m) \<and>
         (truthy f \<longrightarrow> exchange_flows ov = f) \<and>
         (truthy s \<longrightarrow> stablecoin ov = s) \<and>
         (truthy w \<longrightarrow> whale_transfers ov = w) \<and>
         (m = JNull \<longrightarrow> market ov = market SAMPLE_OVERVIEW) \<and>
         (f = JNull \<longrightarrow> exchange_flows ov = exchange_flows SAMPLE_OVERVIEW) \<and>
         (s = JNull \<longrightarrow> stablecoin ov = stablecoin SAMPLE_OVERVIEW) \<and>
         (w = JNull \<longrightarrow> whale_transfers ov = whale_transfers SAMPLE_OVERVIEW)"
  unfolding m_def f_def s_def w_def ov_def
  by (simp add: fetch_sections py_or_def Let_def)

theorem sections_live_or_fallback_witness:
  "fst (try_get example_cfg flows_down ''/api/exchange_flows'') = JNull \<and>
   truthy (fst (try_get example_cfg flows_down ''/api/market'')) \<and>
   truthy (fst (try_get example_cfg flows_down ''/api/stablecoin'')) \<and>
   truthy (fst (try_get example_cfg flows_down ''/api/whale_transfers'')) \<and>
   fst (fetch_dashboard_overview example_cfg flows_down) =
     \<lparr>market = live_market, exchange_flows = exchange_flows SAMPLE_OVERVIEW,
      stablecoin = live_stablecoin, whale_transfers = live_whales\<rparr>"
proof -
  have calls: "fst (try_get example_cfg flows_down ''/api/exchange_flows'') = JNull"
    "fst (try_get example_cfg flows_down ''/api/market'') = live_market"
    "fst (try_get example_cfg flows_down ''/api/stablecoin'') = live_stablecoin"
    "fst (try_get example_cfg flows_down ''/api/whale_transfers'') = live_whales"
    by (simp_all add: flows_down_def try_get_served)
  have live: "truthy live_market" "truthy live_stablecoin" "truthy live_whales"
    by (simp_all add: live_market_def live_stablecoin_def live_whales_def)
  show ?thesis
    using sections_live_or_fallback [of example_cfg flows_down] calls live
    by (cases "fst (fetch_dashboard_overview example_cfg flows_down)") simp
qed

section \<open>Properties of the scheduled job\<close>

text \<open>
  Claim C10. When \<^verbatim>\<open>ADMIN_CHAT_ID\<close> is unset (or empty), the job returns at once: no request
  is made, nothing is evaluated and no message is sent, whatever the upstream would answer.
\<close>

theorem no_admin_no_cycle:
  "\<not> is_set (ADMIN_CHAT_ID cfg) \<Longrightarrow> check_and_send_alert cfg h py_int = (Inr (), [])"
  by (simp add: check_and_send_alert_def)

theorem no_admin_no_cycle_witness:
  "\<not> is_set (ADMIN_CHAT_ID no_admin_cfg) \<and>
   check_and_send_alert no_admin_cfg all_up (\<lambda>s. Some 42) = (Inr (), []) \<and>
   snd (fetch_dashboard_overview no_admin_cfg all_up) \<noteq> []"
proof -
  have unset: "\<not> is_set (ADMIN_CHAT_ID no_admin_cfg)"
    by (simp add: no_admin_cfg_def)
  have "snd (fetch_dashboard_overview no_admin_cfg all_up) \<noteq> []"
    by (simp add: fetch_dashboard_overview_def try_get_def no_admin_cfg_def Let_def
        split: prod.splits)
  with unset no_admin_no_cycle [OF unset, of all_up "\<lambda>s. Some 42"] show ?thesis
    by simp
qed

section \<open>Properties of the alert evaluator\<close>

lemma short_addr_address:
  assumes "is_address fo"
  shows "\<exists>x. short_addr (case fo of None \<Rightarrow> JNull | Some v \<Rightarrow> v) = Inr x"
proof (cases fo)
  case None
  then show ?thesis by (simp add: short_addr_def py_or_def)
next
  case (Some a)
  with assms show ?thesis
    by (cases a) (auto simp: short_addr_def py_or_def)
qed

lemma py_get_field:
  "is_dict d \<Longrightarrow> py_get d k dflt = Inr (case field d k of None \<Rightarrow> dflt | Some v \<Rightarrow> v)"
  by (cases d) auto

lemma whale_alert_small:
  assumes "is_dict t" and "\<not> big_transfer t"
  shows "whale_alert t = Inr None"
  using assms
  by (auto simp: whale_alert_def py_get_field big_transfer_def transfer_amount_def
      BIG_TX_THRESHOLD_def split: option.splits)

lemma whale_alert_big:
  assumes "is_transfer t" and "big_transfer t"
  shows "\<exists>a. whale_alert t = Inr (Some a) \<and> is_whale_alert a"
proof -
  from assms(1) have d: "is_dict t"
    and f: "is_address (field t ''from'')" and g: "is_address (field t ''to'')"
    by (simp_all add: is_transfer_def)
  obtain x where x: "short_addr (case field t ''from'' of None \<Rightarrow> JNull | Some v \<Rightarrow> v) = Inr x"
    using short_addr_address [OF f] by blast
  obtain y where y: "short_addr (case field t ''to'' of None \<Rightarrow> JNull | Some v \<Rightarrow> v) = Inr y"
    using short_addr_address [OF g] by blast
  from assms(2) x y d show ?thesis
    by (auto simp: whale_alert_def py_get_field big_transfer_def transfer_amount_def
        BIG_TX_THRESHOLD_def split: option.splits)
qed

lemma whale_loop_transfers:
  assumes "\<forall>t\<in>set ts. is_transfer t"
  shows "\<exists>ws. whale_loop ts acc = Inr (acc @ ws) \<and>
           list_all2 (\<lambda>t a. whale_alert t = Inr (Some a)) (filter big_transfer ts) ws \<and>
           (\<forall>a\<in>set ws. is_whale_alert a)"
  using assms
proof (induction ts arbitrary: acc)
  case Nil
  then show ?case by simp
next
  case (Cons t ts)
  then have t: "is_transfer t" and rest: "\<forall>t\<in>set ts. is_transfer t"
    by simp_all
  show ?case
  proof (cases "big_transfer t")
    case True
    with t obtain a where a: "whale_alert t = Inr (Some a)" "is_whale_alert a"
      using whale_alert_big by blast
    from Cons.IH [OF rest, of "acc @ [a]"] obtain ws where
      ws: "whale_loop ts (acc @ [a]) = Inr ((acc @ [a]) @ ws)"
        "list_all2 (\<lambda>t a. whale_alert t = Inr (Some a)) (filter big_transfer ts) ws"
        "\<forall>a\<in>set ws. is_whale_alert a"
      by blast
    show ?thesis
      using a ws True by (intro exI [of _ "a # ws"]) simp
  next
    case False
    with t have n: "whale_alert t = Inr None"
      using whale_alert_small by (simp add: is_transfer_def)
    from Cons.IH [OF rest, of acc] obtain ws where
      ws: "whale_loop ts acc = Inr (acc @ ws)"
        "list_all2 (\<lambda>t a. whale_alert t = Inr (Some a)) (filter big_transfer ts) ws"
        "\<forall>a\<in>set ws. is_whale_alert a"
      by blast
    show ?thesis
      using n ws False by (intro exI [of _ ws]) simp
  qed
qed


lemma flow_alerts_shape:
  "flow_alerts v = [] \<or> flow_alerts v = [StrongAccumulation v] \<or>
   flow_alerts v = [StrongDistribution v]"
proof (cases "as_number v")
  case None
  then show ?thesis by (simp add: flow_alerts_def)
next
  case (Some n)
  then show ?thesis
    by (cases n)
       (auto simp: flow_alerts_def ACCUM_THRESHOLD_def DIST_THRESHOLD_def num_ge_def)
qed

lemma flow_alerts_accumulation:
  "as_number v = Some n \<Longrightarrow>
   (\<exists>a\<in>set (flow_alerts v). is_accumulation_alert a) = num_le n (Num (- 50000000))"
  by (auto simp: flow_alerts_def ACCUM_THRESHOLD_def)

lemma flow_alerts_distribution:
  "as_number v = Some n \<Longrightarrow>
   (\<exists>a\<in>set (flow_alerts v). is_distribution_alert a) = num_ge n (Num 50000000)"
  by (auto simp: flow_alerts_def DIST_THRESHOLD_def)

lemma whale_alert_not_flow:
  "is_whale_alert a \<Longrightarrow> \<not> is_accumulation_alert a \<and> \<not> is_distribution_alert a"
  by (cases a) simp_all

lemma is_transfer_examples:
  "is_transfer transfer_at_threshold" "is_transfer transfer_below_threshold"
  by (simp_all add: is_transfer_def transfer_at_threshold_def transfer_below_threshold_def)

lemma big_transfer_examples:
  "big_transfer transfer_at_threshold" "\<not> big_transfer transfer_below_threshold"
  by (simp_all add: big_transfer_def transfer_amount_def num_ge_def
      transfer_at_threshold_def transfer_below_threshold_def)

text \<open>
  Claim C6. On a snapshot whose exchange-flows section is an object with a numeric net
  flow and whose whale transfers are a list of transfer objects, the accumulation alert is
  in the list exactly when net flow \<open>\<le> -50,000,000\<close>, the distribution alert exactly when net
  flow \<open>\<ge> 50,000,000\<close>, and a transfer has its alert in the list exactly when its amount is
  numeric and \<open>\<ge> 10,000,000\<close>: all three bounds are closed.
\<close>

theorem alert_thresholds_closed:
  assumes flows: "is_dict (exchange_flows ov)"
    and whales: "whale_transfers ov = JList ts"
    and transfers: "\<forall>t\<in>set ts. is_transfer t"
    and netf: "numeric_field (exchange_flows ov) ''net_flow'' = Some n"
  shows "\<exists>alerts. evaluate_alerts ov = Inr alerts \<and>
           ((\<exists>a\<in>set alerts. is_accumulation_alert a) \<longleftrightarrow> num_le n (Num (- 50000000))) \<and>
           ((\<exists>a\<in>set alerts. is_distribution_alert a) \<longleftrightarrow> num_ge n (Num 50000000)) \<and>
           (\<forall>t\<in>set ts. (\<exists>a\<in>set alerts. whale_alert t = Inr (Some a)) \<longleftrightarrow> big_transfer t)"
proof -
  obtain v where v: "field (exchange_flows ov) ''net_flow'' = Some v" "as_number v = Some n"
    using netf by (auto simp: numeric_field_def split: option.splits)
  have get: "py_get (exchange_flows ov) ''net_flow'' (JInt 0) = Inr v"
    using flows v by (simp add: py_get_field)
  obtain ws where ws: "whale_loop ts (flow_alerts v) = Inr (flow_alerts v @ ws)"
    and each: "list_all2 (\<lambda>t a. whale_alert t = Inr (Some a)) (filter big_transfer ts) ws"
    and kind: "\<forall>a\<in>set ws. is_whale_alert a"
    using whale_loop_transfers [OF transfers] by blast
  have result: "evaluate_alerts ov = Inr (flow_alerts v @ ws)"
    using get whales ws by (simp add: evaluate_alerts_def)
  have acc: "(\<exists>a\<in>set (flow_alerts v @ ws). is_accumulation_alert a)
      \<longleftrightarrow> num_le n (Num (- 50000000))"
    using flow_alerts_accumulation [OF v(2)] kind whale_alert_not_flow by auto
  have dist: "(\<exists>a\<in>set (flow_alerts v @ ws). is_distribution_alert a)
      \<longleftrightarrow> num_ge n (Num 50000000)"
    using flow_alerts_distribution [OF v(2)] kind whale_alert_not_flow by auto
  have whale: "(\<exists>a\<in>set (flow_alerts v @ ws). whale_alert t = Inr (Some a)) \<longleftrightarrow> big_transfer t"
    if t: "t \<in> set ts" for t
  proof
    assume "\<exists>a\<in>set (flow_alerts v @ ws). whale_alert t = Inr (Some a)"
    then obtain a where "whale_alert t = Inr (Some a)" by blast
    moreover have "is_dict t" using t transfers by (simp add: is_transfer_def)
    ultimately show "big_transfer t"
      using whale_alert_small [of t] by auto
  next
    assume big: "big_transfer t"
    then have "t \<in> set (filter big_transfer ts)" using t by simp
    then obtain i where i: "i < length (filter big_transfer ts)" "filter big_transfer ts ! i = t"
      by (metis in_set_conv_nth)
    with each have "whale_alert t = Inr (Some (ws ! i))" and "i < length ws"
      by (auto simp: list_all2_conv_all_nth)
    then show "\<exists>a\<in>set (flow_alerts v @ ws). whale_alert t = Inr (Some a)"
      by (auto intro: bexI [of _ "ws ! i"])
  qed
  show ?thesis
    using result acc dist whale by blast
qed

theorem alert_thresholds_closed_witness:
  "(\<exists>alerts. evaluate_alerts example_overview = Inr alerts \<and>
      (\<exists>a\<in>set alerts. is_accumulation_alert a) \<and>
      \<not> (\<exists>a\<in>set alerts. is_distribution_alert a) \<and>
      (\<exists>a\<in>set alerts. whale_alert transfer_at_threshold = Inr (Some a)) \<and>
      \<not> (\<exists>a\<in>set alerts. whale_alert transfer_below_threshold = Inr (Some a))) \<and>
   (\<exists>alerts. evaluate_alerts near_miss_overview = Inr alerts \<and>
      \<not> (\<exists>a\<in>set alerts. is_accumulation_alert a) \<and>
      \<not> (\<exists>a\<in>set alerts. is_distribution_alert a))"
proof -
  let ?ts = "[transfer_at_threshold, transfer_below_threshold]"
  have ts: "\<forall>t\<in>set ?ts. is_transfer t"
    using is_transfer_examples by simp
  have d1: "is_dict (exchange_flows example_overview)"
    and w1: "whale_transfers example_overview = JList ?ts"
    and n1: "numeric_field (exchange_flows example_overview) ''net_flow''
      = Some (Num (- 50000000))"
    by (simp_all add: example_overview_def live_flows_def live_whales_def numeric_field_def)
  have d2: "is_dict (exchange_flows near_miss_overview)"
    and w2: "whale_transfers near_miss_overview = JList ?ts"
    and n2: "numeric_field (exchange_flows near_miss_overview) ''net_flow''
      = Some (Num (- 49999999))"
    by (simp_all add: near_miss_overview_def live_whales_def numeric_field_def)
  from alert_thresholds_closed [OF d1 w1 ts n1] obtain al where
    al: "evaluate_alerts example_overview = Inr al"
      "(\<exists>a\<in>set al. is_accumulation_alert a) \<longleftrightarrow> num_le (Num (- 50000000)) (Num (- 50000000))"
      "(\<exists>a\<in>set al. is_distribution_alert a) \<longleftrightarrow> num_ge (Num (- 50000000)) (Num 50000000)"
      "\<forall>t\<in>set ?ts. (\<exists>a\<in>set al. whale_alert t = Inr (Some a)) \<longleftrightarrow> big_transfer t"
    by blast
  from alert_thresholds_closed [OF d2 w2 ts n2] obtain bl where
    bl: "evaluate_alerts near_miss_overview = Inr bl"
      "(\<exists>a\<in>set bl. is_accumulation_alert a) \<longleftrightarrow> num_le (Num (- 49999999)) (Num (- 50000000))"
      "(\<exists>a\<in>set bl. is_distribution_alert a) \<longleftrightarrow> num_ge (Num (- 49999999)) (Num 50000000)"
    by blast
  have first: "\<exists>alerts. evaluate_alerts example_overview = Inr alerts \<and>
      (\<exists>a\<in>set alerts. is_accumulation_alert a) \<and>
      \<not> (\<exists>a\<in>set alerts. is_distribution_alert a) \<and>
      (\<exists>a\<in>set alerts. whale_alert transfer_at_threshold = Inr (Some a)) \<and>
      \<not> (\<exists>a\<in>set alerts. whale_alert transfer_below_threshold = Inr (Some a))"
    using al big_transfer_examples by (intro exI [of _ al]) (simp add: num_ge_def)
  have second: "\<exists>alerts. evaluate_alerts near_miss_overview = Inr alerts \<and>
      \<not> (\<exists>a\<in>set alerts. is_accumulation_alert a) \<and>
      \<not> (\<exists>a\<in>set alerts. is_distribution_alert a)"
    using bl by (intro exI [of _ bl]) (simp add: num_ge_def)
  from first second show ?thesis by blast
qed

text \<open>
  Claim C7. On such a snapshot the alert list is at most one flow alert (accumulation or
  distribution, present exactly when the net flow is numeric and meets one of the two
  thresholds), followed by the alerts of the qualifying transfers, one for each, in the
  order of the transfer list and without a cap; so the list is empty when no condition
  is met.
\<close>

theorem alert_list_shape:
  assumes flows: "is_dict (exchange_flows ov)"
    and whales: "whale_transfers ov = JList ts"
    and transfers: "\<forall>t\<in>set ts. is_transfer t"
  shows "\<exists>fl ws. evaluate_alerts ov = Inr (fl @ ws) \<and>
           length fl \<le> 1 \<and>
           (\<forall>a\<in>set fl. is_accumulation_alert a \<or> is_distribution_alert a) \<and>
           (fl \<noteq> [] \<longleftrightarrow>
              (\<exists>n. numeric_field (exchange_flows ov) ''net_flow'' = Some n \<and>
                   (num_le n (Num (- 50000000)) \<or> num_ge n (Num 50000000)))) \<and>
           list_all2 (\<lambda>t a. whale_alert t = Inr (Some a)) (filter big_transfer ts) ws \<and>
           length ws = length (filter big_transfer ts) \<and>
           (\<forall>a\<in>set ws. is_whale_alert a)"
proof -
  define v where "v = (case field (exchange_flows ov) ''net_flow'' of None \<Rightarrow> JInt 0 | Some x \<Rightarrow> x)"
  have get: "py_get (exchange_flows ov) ''net_flow'' (JInt 0) = Inr v"
    using flows by (simp add: py_get_field v_def)
  obtain ws where ws: "whale_loop ts (flow_alerts v) = Inr (flow_alerts v @ ws)"
    and each: "list_all2 (\<lambda>t a. whale_alert t = Inr (Some a)) (filter big_transfer ts) ws"
    and kind: "\<forall>a\<in>set ws. is_whale_alert a"
    using whale_loop_transfers [OF transfers] by blast
  have result: "evaluate_alerts ov = Inr (flow_alerts v @ ws)"
    using get whales ws by (simp add: evaluate_alerts_def)
  have len: "length (flow_alerts v) \<le> 1"
    and kinds: "\<forall>a\<in>set (flow_alerts v). is_accumulation_alert a \<or> is_distribution_alert a"
    using flow_alerts_shape [of v] by auto
  have fires: "flow_alerts v \<noteq> [] \<longleftrightarrow>
      (\<exists>n. numeric_field (exchange_flows ov) ''net_flow'' = Some n \<and>
           (num_le n (Num (- 50000000)) \<or> num_ge n (Num 50000000)))"
    by (auto simp: v_def numeric_field_def flow_alerts_def ACCUM_THRESHOLD_def
        DIST_THRESHOLD_def num_ge_def split: option.splits)
  have count: "length ws = length (filter big_transfer ts)"
    using each by (simp add: list_all2_lengthD)
  show ?thesis
    using result len kinds fires each count kind by blast
qed

theorem alert_list_shape_witness:
  "is_dict (exchange_flows example_overview) \<and>
   whale_transfers example_overview = JList [transfer_at_threshold, transfer_below_threshold] \<and>
   is_transfer transfer_at_threshold \<and> is_transfer transfer_below_threshold \<and>
   (\<exists>fl ws. evaluate_alerts example_overview = Inr (fl @ ws) \<and>
      length fl \<le> 1 \<and> fl \<noteq> [] \<and>
      list_all2 (\<lambda>t a. whale_alert t = Inr (Some a)) [transfer_at_threshold] ws)"
proof -
  let ?ts = "[transfer_at_threshold, transfer_below_threshold]"
  have ts: "\<forall>t\<in>set ?ts. is_transfer t"
    using is_transfer_examples by simp
  have d1: "is_dict (exchange_flows example_overview)"
    and w1: "whale_transfers example_overview = JList ?ts"
    and n1: "numeric_field (exchange_flows example_overview) ''net_flow''
      = Some (Num (- 50000000))"
    by (simp_all add: example_overview_def live_flows_def live_whales_def numeric_field_def)
  have f: "filter big_transfer ?ts = [transfer_at_threshold]"
    using big_transfer_examples by simp
  from alert_list_shape [OF d1 w1 ts] obtain fl ws where
    r: "evaluate_alerts example_overview = Inr (fl @ ws)" "length fl \<le> 1"
      "fl \<noteq> [] \<longleftrightarrow>
         (\<exists>n. numeric_field (exchange_flows example_overview) ''net_flow'' = Some n \<and>
              (num_le n (Num (- 50000000)) \<or> num_ge n (Num 50000000)))"
      "list_all2 (\<lambda>t a. whale_alert t = Inr (Some a)) (filter big_transfer ?ts) ws"
    by blast
  from r(3) n1 have "fl \<noteq> []" by simp
  with r f d1 w1 is_transfer_examples show ?thesis
    by auto
qed

section \<open>Properties of the sentiment engine\<close>

text \<open>
  On a snapshot whose market, exchange-flows and stablecoin sections are objects no lookup
  raises, and the lines are the header, the three optional blocks and the timestamp.
\<close>

lemma insight_lines_dicts:
  assumes "is_dict (market ov)" and "is_dict (exchange_flows ov)" and "is_dict (stablecoin ov)"
  shows "insight_lines ov now =
     Inr ([Header (case field (market ov) ''price_usd'' of None \<Rightarrow> JStr ''N/A'' | Some v \<Rightarrow> v)]
          @ flow_lines (case field (exchange_flows ov) ''net_flow'' of None \<Rightarrow> JNull | Some v \<Rightarrow> v)
          @ stablecoin_lines
              (case field (stablecoin ov) ''stablecoin_inflow_ratio_pct'' of
                 None \<Rightarrow> JNull | Some v \<Rightarrow> v)
          @ combined_lines
              (case field (exchange_flows ov) ''net_flow'' of None \<Rightarrow> JNull | Some v \<Rightarrow> v)
              (case field (stablecoin ov) ''stablecoin_net_flow'' of None \<Rightarrow> JNull | Some v \<Rightarrow> v)
          @ [AsOf now])"
  using assms by (simp add: insight_lines_def py_get_field)

lemma as_number_default:
  "as_number (case field d k of None \<Rightarrow> JNull | Some v \<Rightarrow> v) = numeric_field d k"
  by (simp add: numeric_field_def split: option.splits)

lemma flow_lines_kinds:
  "filter is_stablecoin_line (flow_lines v) = []"
  "filter is_combined_line (flow_lines v) = []"
  "filter is_flow_line (flow_lines v) = flow_lines v"
  by (simp_all add: flow_lines_def split: option.splits)

lemma stablecoin_lines_kinds:
  "filter is_flow_line (stablecoin_lines v) = []"
  "filter is_combined_line (stablecoin_lines v) = []"
  "filter is_stablecoin_line (stablecoin_lines v) = stablecoin_lines v"
  by (simp_all add: stablecoin_lines_def split: option.splits)

lemma combined_lines_kinds:
  "filter is_flow_line (combined_lines v w) = []"
  "filter is_stablecoin_line (combined_lines v w) = []"
  "filter is_combined_line (combined_lines v w) = combined_lines v w"
  by (simp_all add: combined_lines_def split: option.splits)

lemmas line_kinds = flow_lines_kinds stablecoin_lines_kinds combined_lines_kinds

text \<open>
  Claim C3, as stated, fails: the last line of the message formats \<^verbatim>\<open>datetime.utcnow()\<close>,
  so two evaluations on the same snapshot, one second apart, give different sequences.
\<close>

theorem insight_depends_on_clock:
  "insight_lines SAMPLE_OVERVIEW ''2025-01-01 00:00:00''
     \<noteq> insight_lines SAMPLE_OVERVIEW ''2025-01-01 00:00:01''"
  by (simp add: insight_lines_def SAMPLE_OVERVIEW_def)

text \<open>
  Claim C3, amended. On a snapshot whose three sections are objects the construction never
  raises, and its output is a sequence fixed by the snapshot followed by the timestamp line
  of the clock reading: two evaluations on the same snapshot agree on every line but the
  last, and on all lines when the clock reading is the same. A numeric field that is absent
  or not numeric leaves out its line: no flow line without a numeric net flow, no stablecoin
  line without a numeric ratio, no combined line unless both flows are numeric.
\<close>

theorem insight_total_up_to_clock:
  assumes "is_dict (market ov)" and "is_dict (exchange_flows ov)" and "is_dict (stablecoin ov)"
  shows "\<exists>ls. (\<forall>now. insight_lines ov now = Inr (ls @ [AsOf now])) \<and>
           (numeric_field (exchange_flows ov) ''net_flow'' = None
              \<longrightarrow> filter is_flow_line ls = []) \<and>
           (numeric_field (stablecoin ov) ''stablecoin_inflow_ratio_pct'' = None
              \<longrightarrow> filter is_stablecoin_line ls = []) \<and>
           (numeric_field (exchange_flows ov) ''net_flow'' = None \<or>
            numeric_field (stablecoin ov) ''stablecoin_net_flow'' = None
              \<longrightarrow> filter is_combined_line ls = [])"
proof -
  let ?netf = "case field (exchange_flows ov) ''net_flow'' of None \<Rightarrow> JNull | Some v \<Rightarrow> v"
  let ?ratio = "case field (stablecoin ov) ''stablecoin_inflow_ratio_pct'' of
      None \<Rightarrow> JNull | Some v \<Rightarrow> v"
  let ?snet = "case field (stablecoin ov) ''stablecoin_net_flow'' of None \<Rightarrow> JNull | Some v \<Rightarrow> v"
  let ?ls = "[Header (case field (market ov) ''price_usd'' of None \<Rightarrow> JStr ''N/A'' | Some v \<Rightarrow> v)]
      @ flow_lines ?netf @ stablecoin_lines ?ratio @ combined_lines ?netf ?snet"
  have run: "insight_lines ov now = Inr (?ls @ [AsOf now])" for now
    using insight_lines_dicts [OF assms] by simp
  have flow: "filter is_flow_line ?ls = []"
    if "numeric_field (exchange_flows ov) ''net_flow'' = None"
    using that by (simp add: line_kinds flow_lines_def as_number_default)
  have stable: "filter is_stablecoin_line ?ls = []"
    if "numeric_field (stablecoin ov) ''stablecoin_inflow_ratio_pct'' = None"
    using that by (simp add: line_kinds stablecoin_lines_def as_number_default)
  have comb: "filter is_combined_line ?ls = []"
    if "numeric_field (exchange_flows ov) ''net_flow'' = None \<or>
        numeric_field (stablecoin ov) ''stablecoin_net_flow'' = None"
    using that by (auto simp: line_kinds combined_lines_def as_number_default split: option.splits)
  show ?thesis
    using run flow stable comb by (intro exI [of _ ?ls]) blast
qed


theorem insight_total_up_to_clock_witness:
  "is_dict (market sparse_overview) \<and> is_dict (exchange_flows sparse_overview) \<and>
   is_dict (stablecoin sparse_overview) \<and>
   numeric_field (exchange_flows sparse_overview) ''net_flow'' = None \<and>
   numeric_field (stablecoin sparse_overview) ''stablecoin_inflow_ratio_pct'' = None \<and>
   numeric_field (stablecoin sparse_overview) ''stablecoin_net_flow'' = None \<and>
   (\<exists>ls. (\<forall>now. insight_lines sparse_overview now = Inr (ls @ [AsOf now])) \<and>
      filter is_flow_line ls = [] \<and> filter is_stablecoin_line ls = [] \<and>
      filter is_combined_line ls = [])"
proof -
  have d: "is_dict (market sparse_overview)" "is_dict (exchange_flows sparse_overview)"
    "is_dict (stablecoin sparse_overview)"
    by (simp_all add: sparse_overview_def)
  have n: "numeric_field (exchange_flows sparse_overview) ''net_flow'' = None"
    "numeric_field (stablecoin sparse_overview) ''stablecoin_inflow_ratio_pct'' = None"
    "numeric_field (stablecoin sparse_overview) ''stablecoin_net_flow'' = None"
    by (simp_all add: sparse_overview_def numeric_field_def)
  from insight_total_up_to_clock [OF d] n
  have "\<exists>ls. (\<forall>now. insight_lines sparse_overview now = Inr (ls @ [AsOf now])) \<and>
      filter is_flow_line ls = [] \<and> filter is_stablecoin_line ls = [] \<and>
      filter is_combined_line ls = []"
    by simp
  with d n show ?thesis
    by blast
qed

text \<open>Order facts of Python's comparisons on numbers.\<close>

lemma num_lt_asym: "num_lt a b \<Longrightarrow> \<not> num_lt b a"
  by (cases a; cases b) auto

lemma num_le_not_lt: "num_le a b \<Longrightarrow> \<not> num_lt b a"
  by (cases a; cases b) auto

lemma num_le_trans_lt: "num_le a b \<Longrightarrow> num_lt b c \<Longrightarrow> num_lt a c"
  by (cases a; cases b; cases c) auto

text \<open>
  Claim C4. When the inflow ratio is numeric, the stablecoin line is the risk-off line for
  ratio \<open>\<ge> 70\<close>, the accumulation line for ratio \<open>\<le> 30\<close> and the mixed line for
  \<open>30 < ratio < 70\<close>, and it is the only stablecoin line; 70 itself is risk-off and 30
  itself is accumulation.
\<close>

theorem stablecoin_posture_buckets:
  assumes "is_dict (market ov)" and "is_dict (exchange_flows ov)" and "is_dict (stablecoin ov)"
    and ratio: "numeric_field (stablecoin ov) ''stablecoin_inflow_ratio_pct'' = Some r"
  shows "\<exists>ls. insight_lines ov now = Inr ls \<and>
           (num_ge r (Num 70) \<longrightarrow> filter is_stablecoin_line ls = [StablecoinRiskOff]) \<and>
           (num_le r (Num 30) \<longrightarrow> filter is_stablecoin_line ls = [StablecoinAccumulation]) \<and>
           (num_lt (Num 30) r \<and> num_lt r (Num 70)
              \<longrightarrow> filter is_stablecoin_line ls = [StablecoinMixed])"
proof -
  let ?ratio = "case field (stablecoin ov) ''stablecoin_inflow_ratio_pct'' of
      None \<Rightarrow> JNull | Some v \<Rightarrow> v"
  obtain ls where run: "insight_lines ov now = Inr ls"
    and stable: "filter is_stablecoin_line ls = stablecoin_lines ?ratio"
    using insight_lines_dicts [OF assms(1-3), of now] by (simp add: line_kinds)
  have num: "as_number ?ratio = Some r"
    using ratio by (simp add: as_number_default)
  have high: "stablecoin_lines ?ratio = [StablecoinRiskOff]" if "num_ge r (Num 70)"
    using that num by (simp add: stablecoin_lines_def)
  have low: "stablecoin_lines ?ratio = [StablecoinAccumulation]" if le: "num_le r (Num 30)"
  proof -
    have "num_lt r (Num 70)"
      using num_le_trans_lt [OF le, of "Num 70"] by simp
    then have "\<not> num_ge r (Num 70)"
      unfolding num_ge_def using num_le_not_lt by blast
    with le num show ?thesis by (simp add: stablecoin_lines_def)
  qed
  have mid: "stablecoin_lines ?ratio = [StablecoinMixed]"
    if "num_lt (Num 30) r \<and> num_lt r (Num 70)"
  proof -
    from that have "\<not> num_ge r (Num 70)" "\<not> num_le r (Num 30)"
      unfolding num_ge_def using num_le_not_lt by blast+
    with num show ?thesis by (simp add: stablecoin_lines_def)
  qed
  show ?thesis
    using run stable high low mid by (intro exI [of _ ls]) simp
qed

lemma overview_with_ratio_dicts:
  "is_dict (market (overview_with_ratio v))" "is_dict (exchange_flows (overview_with_ratio v))"
  "is_dict (stablecoin (overview_with_ratio v))"
  by (simp_all add: overview_with_ratio_def live_market_def live_flows_def)

theorem stablecoin_posture_buckets_witness:
  "(\<exists>ls. insight_lines (overview_with_ratio (JInt 70)) ''t'' = Inr ls \<and>
      filter is_stablecoin_line ls = [StablecoinRiskOff]) \<and>
   (\<exists>ls. insight_lines (overview_with_ratio (JInt 30)) ''t'' = Inr ls \<and>
      filter is_stablecoin_line ls = [StablecoinAccumulation]) \<and>
   (\<exists>ls. insight_lines (overview_with_ratio (JFloat (Num 69.5))) ''t'' = Inr ls \<and>
      filter is_stablecoin_line ls = [StablecoinMixed])"
proof -
  have r: "numeric_field (stablecoin (overview_with_ratio (JInt 70)))
      ''stablecoin_inflow_ratio_pct'' = Some (Num 70)"
    "numeric_field (stablecoin (overview_with_ratio (JInt 30)))
      ''stablecoin_inflow_ratio_pct'' = Some (Num 30)"
    "numeric_field (stablecoin (overview_with_ratio (JFloat (Num 69.5))))
      ''stablecoin_inflow_ratio_pct'' = Some (Num 69.5)"
    by (simp_all add: overview_with_ratio_def numeric_field_def)
  show ?thesis
    using stablecoin_posture_buckets [OF overview_with_ratio_dicts r(1), of "''t''"]
      stablecoin_posture_buckets [OF overview_with_ratio_dicts r(2), of "''t''"]
      stablecoin_posture_buckets [OF overview_with_ratio_dicts r(3), of "''t''"]
    by (simp add: num_ge_def)
qed

text \<open>
  Claim C5. When both the net exchange flow and the stablecoin net flow are numeric, the
  combined lines of the message are: the strong-accumulation line exactly when both are
  negative, the divergence line exactly when net flow \<open>< 0 <\<close> stablecoin flow, the bearish
  line exactly when both are positive, and no combined line exactly in every other case.
\<close>

theorem combined_line_sign_cases:
  assumes "is_dict (market ov)" and "is_dict (exchange_flows ov)" and "is_dict (stablecoin ov)"
    and netf: "numeric_field (exchange_flows ov) ''net_flow'' = Some n"
    and snet: "numeric_field (stablecoin ov) ''stablecoin_net_flow'' = Some s"
  shows "\<exists>ls. insight_lines ov now = Inr ls \<and>
           (filter is_combined_line ls = [CombinedAccumulation]
              \<longleftrightarrow> num_lt n (Num 0) \<and> num_lt s (Num 0)) \<and>
           (filter is_combined_line ls = [CombinedDivergence]
              \<longleftrightarrow> num_lt n (Num 0) \<and> num_lt (Num 0) s) \<and>
           (filter is_combined_line ls = [CombinedBearish]
              \<longleftrightarrow> num_lt (Num 0) n \<and> num_lt (Num 0) s) \<and>
           (filter is_combined_line ls = []
              \<longleftrightarrow> \<not> (num_lt n (Num 0) \<and> num_lt s (Num 0)) \<and>
                  \<not> (num_lt n (Num 0) \<and> num_lt (Num 0) s) \<and>
                  \<not> (num_lt (Num 0) n \<and> num_lt (Num 0) s))"
proof -
  let ?netf = "case field (exchange_flows ov) ''net_flow'' of None \<Rightarrow> JNull | Some v \<Rightarrow> v"
  let ?snet = "case field (stablecoin ov) ''stablecoin_net_flow'' of None \<Rightarrow> JNull | Some v \<Rightarrow> v"
  obtain ls where run: "insight_lines ov now = Inr ls"
    and comb: "filter is_combined_line ls = combined_lines ?netf ?snet"
    using insight_lines_dicts [OF assms(1-3), of now] by (simp add: line_kinds)
  have num: "as_number ?netf = Some n" "as_number ?snet = Some s"
    using netf snet by (simp_all add: as_number_default)
  have lines: "combined_lines ?netf ?snet =
      (if num_lt n (Num 0) \<and> num_lt s (Num 0) then [CombinedAccumulation]
       else if num_lt n (Num 0) \<and> num_lt (Num 0) s then [CombinedDivergence]
       else if num_lt (Num 0) n \<and> num_lt (Num 0) s then [CombinedBearish]
       else [])"
    using num by (simp add: combined_lines_def num_gt_def)
  have excl: "\<not> (num_lt s (Num 0) \<and> num_lt (Num 0) s)" "\<not> (num_lt n (Num 0) \<and> num_lt (Num 0) n)"
    using num_lt_asym by blast+
  show ?thesis
    using run comb lines excl by (intro exI [of _ ls]) auto
qed

lemma overview_with_flows_dicts:
  "is_dict (market (overview_with_flows a b))" "is_dict (exchange_flows (overview_with_flows a b))"
  "is_dict (stablecoin (overview_with_flows a b))"
  by (simp_all add: overview_with_flows_def live_market_def)

lemma overview_with_flows_fields:
  "numeric_field (exchange_flows (overview_with_flows a b)) ''net_flow'' = Some (Num (of_int a))"
  "numeric_field (stablecoin (overview_with_flows a b)) ''stablecoin_net_flow''
     = Some (Num (of_int b))"
  by (simp_all add: overview_with_flows_def numeric_field_def)

theorem combined_line_sign_cases_witness:
  "(\<exists>ls. insight_lines (overview_with_flows (- 60000000) (- 10000000)) ''t'' = Inr ls \<and>
      filter is_combined_line ls = [CombinedAccumulation]) \<and>
   (\<exists>ls. insight_lines (overview_with_flows (- 60000000) 10000000) ''t'' = Inr ls \<and>
      filter is_combined_line ls = [CombinedDivergence]) \<and>
   (\<exists>ls. insight_lines (overview_with_flows 60000000 10000000) ''t'' = Inr ls \<and>
      filter is_combined_line ls = [CombinedBearish]) \<and>
   (\<exists>ls. insight_lines (overview_with_flows 10 (- 10)) ''t'' = Inr ls \<and>
      filter is_combined_line ls = []) \<and>
   (\<exists>ls. insight_lines (overview_with_flows 0 0) ''t'' = Inr ls \<and>
      filter is_combined_line ls = [])"
  using
    combined_line_sign_cases [OF overview_with_flows_dicts overview_with_flows_fields,
      of "- 60000000" "- 10000000" "''t''"]
    combined_line_sign_cases [OF overview_with_flows_dicts overview_with_flows_fields,
      of "- 60000000" "10000000" "''t''"]
    combined_line_sign_cases [OF overview_with_flows_dicts overview_with_flows_fields,
      of "60000000" "10000000" "''t''"]
    combined_line_sign_cases [OF overview_with_flows_dicts overview_with_flows_fields,
      of "10" "- 10" "''t''"]
    combined_line_sign_cases [OF overview_with_flows_dicts overview_with_flows_fields,
      of "0" "0" "''t''"]
  by simp blast

end
